theory Spec2Isabelle
  imports Main "HOL-Library.Sublist"
begin

section \<open>Data model\<close>

text \<open>
  The package \<open>metrics\<close> (PopulateMetrics and the functions it calls) is embedded with
  explicit state passing: every call to a collaborator (opening and closing a connection,
  running a query, logging) appends an event to a trace, and every metric set created on an
  entity is a sample of the state. A Go panic is a value of the result type.
\<close>

text \<open>\<open>semver.Version\<close>: the numeric core of a semantic version.\<close>

record semver =
  Major :: nat
  Minor :: nat
  Patch :: nat

text \<open>
  Modelled from the spec: the declaration of \<open>QueryDefinition\<close> is not among the sources,
  which only call \<open>GetQuery\<close> and \<open>GetDataModels\<close> on it. Section 3 of the specification
  gives it the SQL text, an optional inclusive minimum version and an optional exclusive
  maximum version.
\<close>

record QueryDefinition =
  query :: string
  minVersion :: "semver option"
  maxVersion :: "semver option"



text \<open>
  A decoded row (an element of the slice behind \<open>GetDataModels\<close>). \<open>server_version\<close> is
  the field of \<open>serverVersionRow\<close>; the four identity fields are \<open>None\<close> when the row's type
  has no such field; \<open>metrics\<close> are the metric-annotated columns.
\<close>

record Row =
  server_version :: string
  database_name :: "string option"
  schema_name :: "string option"
  table_name :: "string option"
  index_name :: "string option"
  metrics :: "(string \<times> int) list"

text \<open>\<open>collection.SchemaList\<close> and \<open>collection.DatabaseList\<close>. Go iterates a map in an
  unspecified order: the list is the topology in the order the \<open>range\<close> loop visits it.\<close>

type_synonym SchemaList = "string list"
type_synonym DatabaseList = "(string \<times> SchemaList) list"

text \<open>A non-nil \<open>*connection.PGSQLConnection\<close>.\<close>

type_synonym Conn = string

text \<open>\<open>integration.Entity\<close>: its metadata and identifying attributes.\<close>

record Entity =
  Name :: string
  Namespace :: string
  IDAttributes :: "(string \<times> string) list"

text \<open>A \<open>metric.Set\<close> attached to an entity.\<close>

record Sample =
  entity :: Entity
  eventType :: string
  attributes :: "(string \<times> string) list"
  sampleFields :: "(string \<times> int) list"

datatype Level = Error | Warn | Debug

datatype Event =
    Connect string
  | Close Conn
  | Exec Conn string
  | Log Level string "string list"

record State =
  trace :: "Event list"
  samples :: "Sample list"

datatype Outcome = Done State | Panic State

fun state_of :: "Outcome \<Rightarrow> State" where
  "state_of (Done st) = st"
| "state_of (Panic st) = st"

fun panicked :: "Outcome \<Rightarrow> bool" where
  "panicked (Done st) = False"
| "panicked (Panic st) = True"

text \<open>
  How \<open>PGSQLConnection.Close\<close> takes its receiver; its declaration is not among the
  sources. With a value receiver \<open>defer con.Close()\<close> dereferences \<open>con\<close> when the defer
  statement is executed, with a pointer receiver the nil pointer is dereferenced when the
  deferred call runs and reads the connection's field.
\<close>

datatype Receiver = ByValue | ByPointer

text \<open>
  The collaborators, as parameters of the run.
  \<^item> \<open>NewConnection\<close>, \<open>RunQuery\<close> and \<open>HaveExtensionInSchema\<close> are the connection package:
    \<open>Inl e\<close> is a nil result with the error \<open>e\<close>.
  \<^item> \<open>ParseTolerant\<close> is \<open>semver.ParseTolerant\<close>.
  \<^item> The six generators are the query definition catalog.
  \<^item> \<open>EntityError\<close> and \<open>Marshal\<close> are the integration SDK: whether
    \<open>Integration.Entity\<close> fails for a name and a namespace, and what
    \<open>Set.MarshalMetrics\<close> copies from a row together with the error it returns.
\<close>

record Env =
  DatabaseName :: string
  HostPort :: "string \<times> string"
  NewConnection :: "string \<Rightarrow> string + Conn"
  RunQuery :: "Conn \<Rightarrow> string \<Rightarrow> string + Row list"
  HaveExtensionInSchema :: "Conn \<Rightarrow> string \<Rightarrow> string \<Rightarrow> bool"
  CloseReceiver :: Receiver
  ParseTolerant :: "string \<Rightarrow> string + semver"
  generateInstanceDefinitions :: "semver \<Rightarrow> QueryDefinition list"
  generateDatabaseDefinitions :: "DatabaseList \<Rightarrow> semver \<Rightarrow> QueryDefinition list"
  generateLockDefinitions :: "DatabaseList \<Rightarrow> semver \<Rightarrow> QueryDefinition list"
  generateTableDefinitions :: "SchemaList \<Rightarrow> QueryDefinition list"
  generateIndexDefinitions :: "SchemaList \<Rightarrow> QueryDefinition list"
  generatePgBouncerDefinitions :: "QueryDefinition list"
  EntityError :: "string \<Rightarrow> string \<Rightarrow> string option"
  Marshal :: "Row \<Rightarrow> (string \<times> int) list \<times> string option"

section \<open>Primitives\<close>

definition emit :: "Event \<Rightarrow> State \<Rightarrow> State" where
  "emit e st = st\<lparr>trace := trace st @ [e]\<rparr>"

definition log :: "Level \<Rightarrow> string \<Rightarrow> string list \<Rightarrow> State \<Rightarrow> State" where
  "log lvl fmt args st = emit (Log lvl fmt args) st"

text \<open>\<open>strings.Index\<close>: the index of the first instance of \<open>substr\<close> in \<open>s\<close>, or -1.\<close>

fun IndexFrom :: "nat \<Rightarrow> string \<Rightarrow> string \<Rightarrow> int" where
  "IndexFrom n [] substr = (if substr = [] then int n else - 1)"
| "IndexFrom n (c # cs) substr =
     (if prefix substr (c # cs) then int n else IndexFrom (Suc n) cs substr)"

definition Index :: "string \<Rightarrow> string \<Rightarrow> int" where
  "Index s substr = IndexFrom 0 s substr"

text \<open>\<open>strings.Contains\<close>.\<close>

definition Contains :: "string \<Rightarrow> string \<Rightarrow> bool" where
  "Contains s substr \<longleftrightarrow> 0 \<le> Index s substr"

text \<open>
  Modelled from the spec: \<open>GetDatabaseName\<close>, \<open>GetSchemaName\<close>, \<open>GetTableName\<close> and
  \<open>GetIndexName\<close> are not among the sources. Section 4.4: a field-level lookup on the
  record; for a missing identity field an error is returned and the empty identity value
  stands in for the name.
\<close>

definition identity_field :: "string \<Rightarrow> string option \<Rightarrow> string \<times> string option" where
  "identity_field what f =
     (case f of None \<Rightarrow> ('''', Some (''no '' @ what @ '' field in row'')) | Some n \<Rightarrow> (n, None))"

definition GetDatabaseName :: "Row \<Rightarrow> string \<times> string option" where
  "GetDatabaseName r = identity_field ''database name'' (database_name r)"

definition GetSchemaName :: "Row \<Rightarrow> string \<times> string option" where
  "GetSchemaName r = identity_field ''schema name'' (schema_name r)"

definition GetTableName :: "Row \<Rightarrow> string \<times> string option" where
  "GetTableName r = identity_field ''table name'' (table_name r)"

definition GetIndexName :: "Row \<Rightarrow> string \<times> string option" where
  "GetIndexName r = identity_field ''index name'' (index_name r)"

text \<open>
  \<open>Integration.Entity\<close>: the entity of that name, namespace and identifying attributes,
  or the error (and then a nil entity).
\<close>

definition EntityOf :: "Env \<Rightarrow> string \<Rightarrow> string \<Rightarrow> (string \<times> string) list \<Rightarrow> string + Entity" where
  "EntityOf env name ns ids =
     (case EntityError env name ns of
        Some e \<Rightarrow> Inl e
      | None \<Rightarrow> Inr \<lparr>Name = name, Namespace = ns, IDAttributes = ids\<rparr>)"

text \<open>
  \<open>Entity.NewMetricSet\<close>: a new sample on the entity; the result is its handle, the
  position of the sample in the state.
\<close>

definition NewMetricSet ::
  "Entity \<Rightarrow> string \<Rightarrow> (string \<times> string) list \<Rightarrow> State \<Rightarrow> nat \<times> State" where
  "NewMetricSet e ev attrs st =
     (length (samples st),
      st\<lparr>samples := samples st @ [\<lparr>entity = e, eventType = ev, attributes = attrs, sampleFields = []\<rparr>]\<rparr>)"

text \<open>\<open>Set.MarshalMetrics\<close>: copies the row's metric fields onto the sample behind the handle.\<close>

definition MarshalMetrics :: "Env \<Rightarrow> nat \<Rightarrow> Row \<Rightarrow> State \<Rightarrow> string option \<times> State" where
  "MarshalMetrics env ms row st =
     (let (fs, err) = Marshal env row in
      (err,
       if ms < length (samples st)
       then st\<lparr>samples := (samples st)[ms := (samples st ! ms)\<lparr>sampleFields := sampleFields (samples st ! ms) @ fs\<rparr>]\<rparr>
       else st))"

section \<open>Version resolution\<close>

definition versionQuery :: string where
  "versionQuery = ''SHOW server_version''"

datatype VersionResult = VersionOk semver | VersionErr string | VersionPanic

text \<open>\<open>version[:specialIndex]\<close> panics unless \<open>0 \<le> specialIndex \<le> len(version)\<close>.\<close>

text \<open>The call of \<open>semver.ParseTolerant\<close> with its error check (lines 72 to 77 and 83 to 88).\<close>

definition tolerant :: "Env \<Rightarrow> string \<Rightarrow> VersionResult" where
  "tolerant env s = (case ParseTolerant env s of Inl e \<Rightarrow> VersionErr e | Inr v \<Rightarrow> VersionOk v)"

definition parseSpecialVersion :: "Env \<Rightarrow> string \<Rightarrow> int \<Rightarrow> VersionResult" where
  "parseSpecialVersion env version specialIndex =
     (if specialIndex < 0 \<or> int (length version) < specialIndex then VersionPanic
      else tolerant env (take (nat specialIndex) version))"

definition collectVersion :: "Env \<Rightarrow> Conn \<Rightarrow> State \<Rightarrow> VersionResult \<times> State" where
  "collectVersion env connection st =
     (let st1 = emit (Exec connection versionQuery) st in
      case RunQuery env connection versionQuery of
        Inl e \<Rightarrow> (VersionErr e, st1)
      | Inr versionRows \<Rightarrow>
          (case versionRows of
             [] \<Rightarrow> (VersionPanic, st1)
           | r # _ \<Rightarrow>
               (let version = server_version r in
                if Contains version ''Ubuntu''
                then (parseSpecialVersion env version (Index version '' (Ubuntu''), st1)
                else if Contains version ''Debian''
                then (parseSpecialVersion env version (Index version '' (Debian''), st1)
                else (tolerant env version, st1))))"

section \<open>Instance, database and lock domains\<close>

text \<open>The loop of \<open>PopulateInstanceMetrics\<close> over the instance definitions; \<open>metricSet\<close>
  is the one set created before the loop.\<close>

fun instanceLoop :: "Env \<Rightarrow> Conn \<Rightarrow> nat \<Rightarrow> QueryDefinition list \<Rightarrow> State \<Rightarrow> State" where
  "instanceLoop env connection metricSet [] st = st"
| "instanceLoop env connection metricSet (queryDef # rest) st =
     (let st1 = emit (Exec connection (query queryDef)) st in
      case RunQuery env connection (query queryDef) of
        Inl e \<Rightarrow>
          instanceLoop env connection metricSet rest
            (log Error ''Could not execute instance query: %s'' [e] st1)
      | Inr dataModels \<Rightarrow>
          (case dataModels of
             [] \<Rightarrow>
               instanceLoop env connection metricSet rest
                 (log Debug (''No data returned from instance query '%s'' @ [CHR 0x27]) [query queryDef] st1)
           | vp0 # _ \<Rightarrow>
               (case MarshalMetrics env metricSet vp0 st1 of
                  (Some e, st2) \<Rightarrow>
                    instanceLoop env connection metricSet rest
                      (log Error ''Could not parse metrics from instance query result: %s'' [e] st2)
                | (None, st2) \<Rightarrow> instanceLoop env connection metricSet rest st2)))"

definition PopulateInstanceMetrics :: "Env \<Rightarrow> Entity \<Rightarrow> semver \<Rightarrow> Conn \<Rightarrow> State \<Rightarrow> State" where
  "PopulateInstanceMetrics env instanceEntity version connection st =
     (let (metricSet, st1) =
            NewMetricSet instanceEntity ''PostgresqlInstanceSample''
              [(''displayName'', Name instanceEntity),
               (''entityName'', Namespace instanceEntity @ '':'' @ Name instanceEntity)] st
      in instanceLoop env connection metricSet (generateInstanceDefinitions env version) st1)"

text \<open>A loop over the rows of one result; a panic in the body ends it.\<close>

fun forEachRow :: "(Row \<Rightarrow> State \<Rightarrow> Outcome) \<Rightarrow> Row list \<Rightarrow> State \<Rightarrow> Outcome" where
  "forEachRow body [] st = Done st"
| "forEachRow body (r # rs) st =
     (case body r st of
        Done st1 \<Rightarrow> forEachRow body rs st1
      | Panic st1 \<Rightarrow> Panic st1)"

definition report :: "string \<Rightarrow> string list \<Rightarrow> string option \<Rightarrow> State \<Rightarrow> State" where
  "report fmt args err st = (case err of None \<Rightarrow> st | Some e \<Rightarrow> log Error fmt (args @ [e]) st)"

text \<open>
  The body of the row loop of \<open>processDatabaseDefinitions\<close>. When \<open>Entity\<close> fails the
  entity is nil, and reading \<open>databaseEntity.Metadata.Name\<close> panics.
\<close>

definition databaseRow :: "Env \<Rightarrow> Row \<Rightarrow> State \<Rightarrow> Outcome" where
  "databaseRow env db st =
     (let (name, err) = GetDatabaseName db;
          st1 = report ''Unable to get database name: %s'' [] err st;
          (host, port) = HostPort env
      in case EntityOf env name ''pg-database'' [(''host'', host), (''port'', port)] of
           Inl e \<Rightarrow>
             Panic (log Error ''Failed to get database entity for name %s: %s'' [name, e] st1)
         | Inr databaseEntity \<Rightarrow>
             (let (metricSet, st2) =
                    NewMetricSet databaseEntity ''PostgresqlDatabaseSample''
                      [(''displayName'', Name databaseEntity),
                       (''entityName'', ''database:'' @ Name databaseEntity)] st1;
                  (merr, st3) = MarshalMetrics env metricSet db st2
              in Done (report ''Failed to database entity with metrics: %s'' [] merr st3)))"

fun processDatabaseDefinitions :: "Env \<Rightarrow> QueryDefinition list \<Rightarrow> Conn \<Rightarrow> State \<Rightarrow> Outcome" where
  "processDatabaseDefinitions env [] connection st = Done st"
| "processDatabaseDefinitions env (queryDef # rest) connection st =
     (let st1 = emit (Exec connection (query queryDef)) st in
      case RunQuery env connection (query queryDef) of
        Inl e \<Rightarrow>
          processDatabaseDefinitions env rest connection
            (log Error ''Could not execute database query: %s'' [e] st1)
      | Inr dataModels \<Rightarrow>
          (case forEachRow (databaseRow env) dataModels st1 of
             Done st2 \<Rightarrow> processDatabaseDefinitions env rest connection st2
           | Panic st2 \<Rightarrow> Panic st2))"

definition PopulateDatabaseMetrics :: "DatabaseList \<Rightarrow> semver \<Rightarrow> Env \<Rightarrow> Conn \<Rightarrow> State \<Rightarrow> Outcome" where
  "PopulateDatabaseMetrics databases version env connection st =
     processDatabaseDefinitions env (generateDatabaseDefinitions env databases version) connection st"

definition PopulateDatabaseLockMetrics ::
  "DatabaseList \<Rightarrow> semver \<Rightarrow> Env \<Rightarrow> Conn \<Rightarrow> State \<Rightarrow> Outcome" where
  "PopulateDatabaseLockMetrics databases version env connection st =
     (if \<not> HaveExtensionInSchema env connection ''tablefunc'' ''public''
      then Done
        (log Warn ''  2. Run the query 'CREATE EXTENSION tablefunc;' against your database's public schema'' []
        (log Warn ''  1. Installing the postgresql contribs package for your OS; and'' []
        (log Warn ''schema of your database. You can do so by:'' []
        (log Warn ''To enable database lock metrics, enable the 'tablefunc' extension on the public'' []
        (log Warn ''Crosstab function not available; database lock metric gathering not possible.'' []
           st)))))
      else processDatabaseDefinitions env (generateLockDefinitions env databases version) connection st)"

section \<open>Table and index domains\<close>

text \<open>The body of the row loop of \<open>populateTableMetricsForDatabase\<close>.\<close>

definition tableRow :: "Env \<Rightarrow> Row \<Rightarrow> State \<Rightarrow> Outcome" where
  "tableRow env row st =
     (let (dbName, err1) = GetDatabaseName row;
          st1 = report ''Unable to get database name: %s'' [] err1 st;
          (schemaName, err2) = GetSchemaName row;
          st2 = report ''Unable to get schema name: %s'' [] err2 st1;
          (tableName, err3) = GetTableName row;
          st3 = report ''Unable to get table name: %s'' [] err3 st2;
          (host, port) = HostPort env
      in case EntityOf env tableName ''pg-table''
                [(''host'', host), (''port'', port), (''pg-database'', dbName), (''pg-schema'', schemaName)] of
           Inl e \<Rightarrow>
             Panic (log Error ''Failed to get table entity for table %s: %s'' [tableName, e] st3)
         | Inr tableEntity \<Rightarrow>
             (let (metricSet, st4) =
                    NewMetricSet tableEntity ''PostgresqlTableSample''
                      [(''displayName'', Name tableEntity),
                       (''entityName'', ''table:'' @ Name tableEntity),
                       (''database'', dbName),
                       (''schema'', schemaName)] st3;
                  (merr, st5) = MarshalMetrics env metricSet row st4
              in Done (report ''Failed to populate table entity with metrics: %s'' [] merr st5)))"

text \<open>The loop of \<open>populateTableMetricsForDatabase\<close> over the table definitions: a query
  error returns from the function.\<close>

fun tableDefinitionsLoop :: "Env \<Rightarrow> Conn \<Rightarrow> QueryDefinition list \<Rightarrow> State \<Rightarrow> Outcome" where
  "tableDefinitionsLoop env con [] st = Done st"
| "tableDefinitionsLoop env con (defn # rest) st =
     (let st1 = emit (Exec con (query defn)) st in
      case RunQuery env con (query defn) of
        Inl e \<Rightarrow> Done (log Error ''Could not execute table query: %s'' [e] st1)
      | Inr dataModels \<Rightarrow>
          (case forEachRow (tableRow env) dataModels st1 of
             Done st2 \<Rightarrow> tableDefinitionsLoop env con rest st2
           | Panic st2 \<Rightarrow> Panic st2))"

definition populateTableMetricsForDatabase :: "Env \<Rightarrow> SchemaList \<Rightarrow> Conn \<Rightarrow> State \<Rightarrow> Outcome" where
  "populateTableMetricsForDatabase env schemaList con st =
     tableDefinitionsLoop env con (generateTableDefinitions env schemaList) st"

text \<open>
  The deferred \<open>Close\<close> calls of a function, the last registered first; \<open>None\<close> is the
  nil connection, whose \<open>Close\<close> panics. Every deferred call runs, also after a panic.
\<close>

fun runDeferred :: "Conn option list \<Rightarrow> Outcome \<Rightarrow> Outcome" where
  "runDeferred [] out = out"
| "runDeferred (Some con # deferred) out =
     runDeferred deferred
       (case out of Done st \<Rightarrow> Done (emit (Close con) st) | Panic st \<Rightarrow> Panic (emit (Close con) st))"
| "runDeferred (None # deferred) out = runDeferred deferred (Panic (state_of out))"

text \<open>The loop of \<open>PopulateTableMetrics\<close>; \<open>deferred\<close> holds the connections whose \<open>Close\<close>
  has been deferred so far.\<close>

fun tableLoop :: "Env \<Rightarrow> DatabaseList \<Rightarrow> Conn option list \<Rightarrow> State \<Rightarrow> Outcome" where
  "tableLoop env [] deferred st = runDeferred deferred (Done st)"
| "tableLoop env ((database, schemaList) # rest) deferred st =
     (if length schemaList = 0 then runDeferred deferred (Done st)
      else
        (let st1 = emit (Connect database) st in
         case NewConnection env database of
           Inl e \<Rightarrow>
             (case CloseReceiver env of
                ByValue \<Rightarrow> runDeferred deferred (Panic st1)
              | ByPointer \<Rightarrow>
                  tableLoop env rest (None # deferred)
                    (log Error ''Failed to connect to database %s: %s'' [database, e] st1))
         | Inr con \<Rightarrow>
             (case populateTableMetricsForDatabase env schemaList con st1 of
                Done st2 \<Rightarrow> tableLoop env rest (Some con # deferred) st2
              | Panic st2 \<Rightarrow> runDeferred (Some con # deferred) (Panic st2))))"

definition PopulateTableMetrics :: "DatabaseList \<Rightarrow> Env \<Rightarrow> State \<Rightarrow> Outcome" where
  "PopulateTableMetrics databases env st = tableLoop env databases [] st"

text \<open>The body of the row loop of \<open>populateIndexMetricsForDatabase\<close>.\<close>

definition indexRow :: "Env \<Rightarrow> Row \<Rightarrow> State \<Rightarrow> Outcome" where
  "indexRow env row st =
     (let (dbName, err1) = GetDatabaseName row;
          st1 = report ''Unable to get database name: %s'' [] err1 st;
          (schemaName, err2) = GetSchemaName row;
          st2 = report ''Unable to get schema name: %s'' [] err2 st1;
          (tableName, err3) = GetTableName row;
          st3 = report ''Unable to get table name: %s'' [] err3 st2;
          (indexName, err4) = GetIndexName row;
          st4 = report ''Unable to get index name: %s'' [] err4 st3;
          (host, port) = HostPort env
      in case EntityOf env indexName ''pg-index''
                [(''host'', host), (''port'', port), (''pg-database'', dbName),
                 (''pg-schema'', schemaName), (''pg-table'', tableName)] of
           Inl e \<Rightarrow>
             Panic (log Error ''Failed to get table entity for index %s: %s'' [indexName, e] st4)
         | Inr indexEntity \<Rightarrow>
             (let (metricSet, st5) =
                    NewMetricSet indexEntity ''PostgresqlIndexSample''
                      [(''displayName'', Name indexEntity),
                       (''entityName'', ''index:'' @ Name indexEntity),
                       (''database'', dbName),
                       (''schema'', schemaName),
                       (''table'', tableName)] st4;
                  (merr, st6) = MarshalMetrics env metricSet row st5
              in Done (report ''Failed to populate index entity with metrics: %s'' [] merr st6)))"

fun indexDefinitionsLoop :: "Env \<Rightarrow> Conn \<Rightarrow> QueryDefinition list \<Rightarrow> State \<Rightarrow> Outcome" where
  "indexDefinitionsLoop env con [] st = Done st"
| "indexDefinitionsLoop env con (defn # rest) st =
     (let st1 = emit (Exec con (query defn)) st in
      case RunQuery env con (query defn) of
        Inl e \<Rightarrow> Done (log Error ''Could not execute index query: %s'' [e] st1)
      | Inr dataModels \<Rightarrow>
          (case forEachRow (indexRow env) dataModels st1 of
             Done st2 \<Rightarrow> indexDefinitionsLoop env con rest st2
           | Panic st2 \<Rightarrow> Panic st2))"

definition populateIndexMetricsForDatabase :: "Env \<Rightarrow> SchemaList \<Rightarrow> Conn \<Rightarrow> State \<Rightarrow> Outcome" where
  "populateIndexMetricsForDatabase env schemaList con st =
     indexDefinitionsLoop env con (generateIndexDefinitions env schemaList) st"

fun indexLoop :: "Env \<Rightarrow> DatabaseList \<Rightarrow> Conn option list \<Rightarrow> State \<Rightarrow> Outcome" where
  "indexLoop env [] deferred st = runDeferred deferred (Done st)"
| "indexLoop env ((database, schemaList) # rest) deferred st =
     (let st1 = emit (Connect database) st in
      case NewConnection env database of
        Inl e \<Rightarrow>
          indexLoop env rest deferred
            (log Error ''Failed to create new connection to database %s: %s'' [database, e] st1)
      | Inr con \<Rightarrow>
          (case populateIndexMetricsForDatabase env schemaList con st1 of
             Done st2 \<Rightarrow> indexLoop env rest (Some con # deferred) st2
           | Panic st2 \<Rightarrow> runDeferred (Some con # deferred) (Panic st2)))"

definition PopulateIndexMetrics :: "DatabaseList \<Rightarrow> Env \<Rightarrow> State \<Rightarrow> Outcome" where
  "PopulateIndexMetrics databases env st = indexLoop env databases [] st"

section \<open>Pooling proxy\<close>

text \<open>The body of the row loop of \<open>PopulatePgBouncerMetrics\<close>: a row without a database
  name is skipped. A nil entity panics inside \<open>NewMetricSet\<close>.\<close>

definition pgBouncerRow :: "Env \<Rightarrow> Row \<Rightarrow> State \<Rightarrow> Outcome" where
  "pgBouncerRow env db st =
     (case GetDatabaseName db of
        (name, Some e) \<Rightarrow> Done (log Error ''Unable to get database name: %s'' [e] st)
      | (name, None) \<Rightarrow>
          (let (host, port) = HostPort env in
           case EntityOf env name ''pgbouncer'' [(''host'', host), (''port'', port)] of
             Inl e \<Rightarrow>
               Panic (log Error ''Failed to get database entity for name %s: %s'' [name, e] st)
           | Inr pgEntity \<Rightarrow>
               (let (metricSet, st2) =
                      NewMetricSet pgEntity ''PgBouncerSample''
                        [(''displayName'', name),
                         (''entityName'', ''pgbouncer:'' @ name),
                         (''host'', host)] st;
                    (merr, st3) = MarshalMetrics env metricSet db st2
                in Done (report ''Failed to populate pgbouncer entity with metrics: %s'' [] merr st3))))"

fun pgBouncerDefinitionsLoop :: "Env \<Rightarrow> Conn \<Rightarrow> QueryDefinition list \<Rightarrow> State \<Rightarrow> Outcome" where
  "pgBouncerDefinitionsLoop env con [] st = Done st"
| "pgBouncerDefinitionsLoop env con (defn # rest) st =
     (let st1 = emit (Exec con (query defn)) st in
      case RunQuery env con (query defn) of
        Inl e \<Rightarrow> Done (log Error ''Could not execute index query: %s'' [e] st1)
      | Inr dataModels \<Rightarrow>
          (case forEachRow (pgBouncerRow env) dataModels st1 of
             Done st2 \<Rightarrow> pgBouncerDefinitionsLoop env con rest st2
           | Panic st2 \<Rightarrow> Panic st2))"

definition PopulatePgBouncerMetrics :: "Env \<Rightarrow> Conn \<Rightarrow> State \<Rightarrow> Outcome" where
  "PopulatePgBouncerMetrics env con st =
     pgBouncerDefinitionsLoop env con (generatePgBouncerDefinitions env) st"

section \<open>The run\<close>

definition andThen :: "Outcome \<Rightarrow> (State \<Rightarrow> Outcome) \<Rightarrow> Outcome" where
  "andThen out f = (case out of Done st \<Rightarrow> f st | Panic st \<Rightarrow> Panic st)"

text \<open>The metric domains of \<open>PopulateMetrics\<close>, lines 35 to 41, on the primary connection.\<close>

definition collectDomains ::
  "Env \<Rightarrow> DatabaseList \<Rightarrow> Entity \<Rightarrow> bool \<Rightarrow> semver \<Rightarrow> Conn \<Rightarrow> State \<Rightarrow> Outcome" where
  "collectDomains env databaseList instance collectDbLocks version con st =
     andThen
       (andThen
          (andThen
             (PopulateDatabaseMetrics databaseList version env con
                (PopulateInstanceMetrics env instance version con st))
             (\<lambda>st2. if collectDbLocks
                    then PopulateDatabaseLockMetrics databaseList version env con st2
                    else Done st2))
          (PopulateTableMetrics databaseList env))
       (PopulateIndexMetrics databaseList env)"

text \<open>Lines 43 to 51: the optional pooling-proxy domain, with the \<open>Close\<close> it defers.\<close>

definition collectPooling :: "Env \<Rightarrow> State \<Rightarrow> Conn option list \<times> Outcome" where
  "collectPooling env st =
     (let st1 = emit (Connect ''pgbouncer'') st in
      case NewConnection env ''pgbouncer'' of
        Inl e \<Rightarrow> ([], Done (log Error ''Error creating connection to pgbouncer database: %s'' [e] st1))
      | Inr con \<Rightarrow> ([Some con], PopulatePgBouncerMetrics env con st1))"

definition PopulateMetrics ::
  "Env \<Rightarrow> DatabaseList \<Rightarrow> Entity \<Rightarrow> bool \<Rightarrow> bool \<Rightarrow> State \<Rightarrow> Outcome" where
  "PopulateMetrics env databaseList instance collectPgBouncer collectDbLocks st =
     (let st1 = emit (Connect (DatabaseName env)) st in
      case NewConnection env (DatabaseName env) of
        Inl e \<Rightarrow>
          Done (log Error ''Metrics collection failed: error creating connection to SQL Server: %s'' [e] st1)
      | Inr con \<Rightarrow>
          (case collectVersion env con st1 of
             (VersionPanic, st2) \<Rightarrow> runDeferred [Some con] (Panic st2)
           | (VersionErr e, st2) \<Rightarrow>
               runDeferred [Some con]
                 (Done (log Error ''Metrics collection failed: error collecting version number: %s'' [e] st2))
           | (VersionOk version, st2) \<Rightarrow>
               (case collectDomains env databaseList instance collectDbLocks version con st2 of
                  Panic st3 \<Rightarrow> runDeferred [Some con] (Panic st3)
                | Done st3 \<Rightarrow>
                    (if collectPgBouncer
                     then (let (deferred, out) = collectPooling env st3
                           in runDeferred (deferred @ [Some con]) out)
                     else runDeferred [Some con] (Done st3)))))"

section \<open>Observations on a run\<close>

text \<open>The queries of a trace, each with the connection it ran on, in order.\<close>

fun issued :: "Event list \<Rightarrow> (Conn \<times> string) list" where
  "issued [] = []"
| "issued (Exec con q # es) = (con, q) # issued es"
| "issued (e # es) = issued es"

text \<open>The databases a connection was requested to, in order.\<close>

fun opened :: "Event list \<Rightarrow> string list" where
  "opened [] = []"
| "opened (Connect db # es) = db # opened es"
| "opened (e # es) = opened es"

text \<open>The identity value of a row's field: empty when the field is missing.\<close>

definition orEmpty :: "string option \<Rightarrow> string" where
  "orEmpty f = (case f of None \<Rightarrow> '''' | Some n \<Rightarrow> n)"

text \<open>
  What one instance definition contributes, in the words of section 4.3: the fields of the
  first row of its result, nothing when the query fails or returns no row.
\<close>

definition firstRowFields :: "Env \<Rightarrow> Conn \<Rightarrow> QueryDefinition \<Rightarrow> (string \<times> int) list" where
  "firstRowFields env con d =
     (case RunQuery env con (query d) of
        Inl e \<Rightarrow> []
      | Inr rows \<Rightarrow> (case rows of [] \<Rightarrow> [] | r # _ \<Rightarrow> fst (Marshal env r)))"

definition instanceFields :: "Env \<Rightarrow> Conn \<Rightarrow> QueryDefinition list \<Rightarrow> (string \<times> int) list" where
  "instanceFields env con defs = concat (map (firstRowFields env con) defs)"




section \<open>Concrete inputs\<close>

definition st0 :: State where
  "st0 = \<lparr>trace = [], samples = []\<rparr>"

definition versionRow :: "string \<Rightarrow> Row" where
  "versionRow s = \<lparr>server_version = s, database_name = None, schema_name = None,
     table_name = None, index_name = None, metrics = []\<rparr>"

text \<open>A row without any identity field.\<close>

definition rowAnon :: Row where
  "rowAnon = \<lparr>server_version = '''', database_name = None, schema_name = None,
     table_name = None, index_name = None, metrics = [(''size'', 7)]\<rparr>"

text \<open>\<open>semver.ParseTolerant\<close> on the two version strings of the specification.\<close>

definition parseKnown :: "string \<Rightarrow> string + semver" where
  "parseKnown s =
     (if s = ''12.3'' then Inr \<lparr>Major = 12, Minor = 3, Patch = 0\<rparr>
      else if s = ''9.6.1'' then Inr \<lparr>Major = 9, Minor = 6, Patch = 1\<rparr>
      else Inl ''Invalid character(s) found'')"

text \<open>A server of version 12.3 with an empty catalog; only the database \<open>down\<close> refuses
  connections.\<close>

definition envBase :: Env where
  "envBase = \<lparr>
     DatabaseName = ''postgres'',
     HostPort = (''localhost'', ''5432''),
     NewConnection = (\<lambda>db. if db = ''down'' then Inl ''connection refused'' else Inr db),
     RunQuery = (\<lambda>con q. if q = versionQuery then Inr [versionRow ''12.3''] else Inr []),
     HaveExtensionInSchema = (\<lambda>con ext sch. True),
     CloseReceiver = ByPointer,
     ParseTolerant = parseKnown,
     generateInstanceDefinitions = (\<lambda>v. []),
     generateDatabaseDefinitions = (\<lambda>dbs v. []),
     generateLockDefinitions = (\<lambda>dbs v. []),
     generateTableDefinitions = (\<lambda>sl. []),
     generateIndexDefinitions = (\<lambda>sl. []),
     generatePgBouncerDefinitions = [],
     EntityError = (\<lambda>name ns. None),
     Marshal = (\<lambda>r. (metrics r, None))\<rparr>"

definition instance0 :: Entity where
  "instance0 = \<lparr>Name = ''localhost:5432'', Namespace = ''pg-instance'', IDAttributes = []\<rparr>"



definition defA :: QueryDefinition where
  "defA = \<lparr>query = ''SELECT a'', minVersion = None, maxVersion = None\<rparr>"

definition defB :: QueryDefinition where
  "defB = \<lparr>query = ''SELECT b'', minVersion = None, maxVersion = None\<rparr>"

text \<open>Two definitions in the table, index and pooling-proxy catalogs; the query of the
  first one fails.\<close>

definition envFirstFails :: Env where
  "envFirstFails = envBase\<lparr>
     RunQuery := (\<lambda>con q. if q = ''SELECT a'' then Inl ''syntax error'' else Inr []),
     generateTableDefinitions := (\<lambda>sl. [defA, defB]),
     generateIndexDefinitions := (\<lambda>sl. [defA, defB]),
     generatePgBouncerDefinitions := [defA, defB]\<rparr>"

text \<open>A version string with a Debian parenthetical and the token Ubuntu outside one.\<close>

definition envMarker :: Env where
  "envMarker = envBase\<lparr>RunQuery := (\<lambda>con q. Inr [versionRow ''10.4 (Debian 10.4-2) Ubuntu''])\<rparr>"

text \<open>Every query succeeds with no rows.\<close>

definition envNoRows :: Env where
  "envNoRows = envBase\<lparr>RunQuery := (\<lambda>con q. Inr [])\<rparr>"

text \<open>A version string that does not parse.\<close>

definition envBadVersion :: Env where
  "envBadVersion = envBase\<lparr>RunQuery := (\<lambda>con q. Inr [versionRow ''devel''])\<rparr>"

text \<open>Two instance definitions, each answered with two rows.\<close>

definition envInstance :: Env where
  "envInstance = envBase\<lparr>
     RunQuery := (\<lambda>con q. Inr [rowAnon, rowAnon]),
     generateInstanceDefinitions := (\<lambda>v. [defA, defB])\<rparr>"


section \<open>Traces and samples of the primitives\<close>

lemma trace_emit [simp]: "trace (emit e st) = trace st @ [e]"
  by (simp add: emit_def)

lemma samples_emit [simp]: "samples (emit e st) = samples st"
  by (simp add: emit_def)

lemma trace_log [simp]: "trace (log lvl fmt args st) = trace st @ [Log lvl fmt args]"
  by (simp add: log_def)

lemma samples_log [simp]: "samples (log lvl fmt args st) = samples st"
  by (simp add: log_def)

lemma issued_append [simp]: "issued (xs @ ys) = issued xs @ issued ys"
  by (induction xs rule: issued.induct) simp_all

lemma issued_report [simp]: "issued (trace (report fmt args err st)) = issued (trace st)"
  by (cases err) (simp_all add: report_def)

lemma samples_report [simp]: "samples (report fmt args err st) = samples st"
  by (cases err) (simp_all add: report_def)


lemma trace_report_Some [simp]:
  "trace (report fmt args (Some e) st) = trace st @ [Log Error fmt (args @ [e])]"
  by (simp add: report_def)

lemma trace_NewMetricSet [simp]: "trace (snd (NewMetricSet e ev attrs st)) = trace st"
  by (simp add: NewMetricSet_def)

lemma samples_NewMetricSet [simp]:
  "samples (snd (NewMetricSet e ev attrs st)) =
     samples st @ [\<lparr>entity = e, eventType = ev, attributes = attrs, sampleFields = []\<rparr>]"
  by (simp add: NewMetricSet_def)

lemma fst_NewMetricSet [simp]: "fst (NewMetricSet e ev attrs st) = length (samples st)"
  by (simp add: NewMetricSet_def)

lemma trace_MarshalMetrics [simp]: "trace (snd (MarshalMetrics env ms row st)) = trace st"
  by (simp add: MarshalMetrics_def split_beta)

lemma fst_MarshalMetrics [simp]: "fst (MarshalMetrics env ms row st) = snd (Marshal env row)"
  by (simp add: MarshalMetrics_def split_beta)

lemma samples_MarshalMetrics_last:
  assumes "samples st = pre @ [s]"
  shows "samples (snd (MarshalMetrics env (length pre) row st)) =
           pre @ [s\<lparr>sampleFields := sampleFields s @ fst (Marshal env row)\<rparr>]"
  using assms by (simp add: MarshalMetrics_def split_beta nth_append)

lemma samples_MarshalMetrics_new [simp]:
  assumes "ms = length (samples st)"
  shows "samples (snd (MarshalMetrics env ms row (snd (NewMetricSet e ev attrs st)))) =
     samples st @ [\<lparr>entity = e, eventType = ev, attributes = attrs, sampleFields = fst (Marshal env row)\<rparr>]"
  unfolding assms
  by (simp add: samples_MarshalMetrics_last
      [where s = "\<lparr>entity = e, eventType = ev, attributes = attrs, sampleFields = []\<rparr>"])

lemma identity_field_fst [simp]: "fst (identity_field what f) = orEmpty f"
  by (cases f) (simp_all add: identity_field_def orEmpty_def)

lemma identity_field_snd_None [simp]:
  "snd (identity_field what None) = Some (''no '' @ what @ '' field in row'')"
  by (simp add: identity_field_def)

section \<open>Queries of the table and index loops\<close>

lemma issued_tableRow [simp]: "issued (trace (state_of (tableRow env row st))) = issued (trace st)"
  unfolding tableRow_def
  by (simp add: Let_def split_beta split: sum.splits)

lemma issued_indexRow [simp]: "issued (trace (state_of (indexRow env row st))) = issued (trace st)"
  unfolding indexRow_def
  by (simp add: Let_def split_beta split: sum.splits)


lemma panicked_tableRow [simp]:
  "panicked (tableRow env row st) \<longleftrightarrow> EntityError env (orEmpty (table_name row)) ''pg-table'' \<noteq> None"
  by (simp add: tableRow_def GetDatabaseName_def GetSchemaName_def GetTableName_def EntityOf_def
      split_beta Let_def split: option.splits)

lemma panicked_indexRow [simp]:
  "panicked (indexRow env row st) \<longleftrightarrow> EntityError env (orEmpty (index_name row)) ''pg-index'' \<noteq> None"
  by (simp add: indexRow_def GetDatabaseName_def GetSchemaName_def GetTableName_def GetIndexName_def
      EntityOf_def split_beta Let_def split: option.splits)




section \<open>Samples of the instance loop\<close>

lemma samples_instanceLoop:
  assumes "samples st = pre @ [s]"
  shows "samples (instanceLoop env con (length pre) defs st) =
           pre @ [s\<lparr>sampleFields := sampleFields s @ instanceFields env con defs\<rparr>]"
  using assms
proof (induction defs arbitrary: st s)
  case Nil
  then show ?case by (simp add: instanceFields_def)
next
  case (Cons d ds)
  let ?st1 = "emit (Exec con (query d)) st"
  have st1: "samples ?st1 = pre @ [s]" using Cons.prems by simp
  show ?case
  proof (cases "RunQuery env con (query d)")
    case (Inl e)
    have "samples (log Error ''Could not execute instance query: %s'' [e] ?st1) = pre @ [s]"
      using st1 by simp
    from Cons.IH [OF this] Inl show ?thesis
      by (simp add: instanceFields_def firstRowFields_def)
  next
    case (Inr rows)
    show ?thesis
    proof (cases rows)
      case Nil
      have "samples (log Debug (''No data returned from instance query '%s'' @ [CHR 0x27])
               [query d] ?st1) = pre @ [s]"
        using st1 by simp
      from Cons.IH [OF this] Inr Nil show ?thesis
        by (simp add: instanceFields_def firstRowFields_def)
    next
      case (Cons r rs)
      let ?s' = "s\<lparr>sampleFields := sampleFields s @ fst (Marshal env r)\<rparr>"
      have m: "samples (snd (MarshalMetrics env (length pre) r ?st1)) = pre @ [?s']"
        using st1 by (rule samples_MarshalMetrics_last)
      obtain merr st2 where eq: "MarshalMetrics env (length pre) r ?st1 = (merr, st2)"
        by (cases "MarshalMetrics env (length pre) r ?st1")
      with m have m2: "samples st2 = pre @ [?s']" by simp
      show ?thesis
      proof (cases merr)
        case None
        from Cons.IH [OF m2] Inr Cons eq None show ?thesis
          by (simp add: instanceFields_def firstRowFields_def)
      next
        case (Some e)
        have "samples (log Error ''Could not parse metrics from instance query result: %s'' [e] st2) =
                pre @ [?s']"
          using m2 by simp
        from Cons.IH [OF this] Inr Cons eq Some show ?thesis
          by (simp add: instanceFields_def firstRowFields_def)
      qed
    qed
  qed
qed

section \<open>One row of the database, table and index domains\<close>








section \<open>Version gates of the table and index domains\<close>



section \<open>Databases without schemas\<close>

text \<open>
  C2, on the code: a database without schemas ends \<open>PopulateTableMetrics\<close> (the
  \<open>return\<close> of line 185). When the loop visits \<open>a\<close>, which has no schema, before \<open>b\<close>,
  which has one, no connection to \<open>b\<close> is opened; in the other order \<open>b\<close> is collected.
\<close>

theorem table_return_abandons_later_databases:
  "opened (trace (state_of
      (PopulateTableMetrics [(''a'', []), (''b'', [''public''])] envBase st0))) = []
   \<and> opened (trace (state_of
      (PopulateTableMetrics [(''b'', [''public'']), (''a'', [])] envBase st0))) = [''b'']"
  by (simp add: PopulateTableMetrics_def populateTableMetricsForDatabase_def envBase_def st0_def
      emit_def log_def Let_def)

text \<open>
  C3, on the code: \<open>PopulateIndexMetrics\<close> has no test of the schema list. For a topology
  whose only database has no schema, it opens a connection to that database and closes it.
\<close>

theorem index_connects_without_schemas:
  "trace (state_of (PopulateIndexMetrics [(''a'', [])] envBase st0)) = [Connect ''a'', Close ''a'']"
  by (simp add: PopulateIndexMetrics_def populateIndexMetricsForDatabase_def envBase_def st0_def
      emit_def log_def Let_def)

section \<open>Query errors\<close>

text \<open>
  C4, on the code: in the table, index and pooling-proxy domains a query error returns
  from the function (lines 210, 276 and 335). With the definitions \<open>defA\<close> and \<open>defB\<close>,
  the first of which fails, the query of \<open>defB\<close> is issued in none of the three;
  \<open>processDatabaseDefinitions\<close> on the same two definitions issues both.
\<close>

theorem table_query_error_abandons_later_definitions:
  "generateTableDefinitions envFirstFails [''public''] = [defA, defB]
   \<and> RunQuery envFirstFails ''db1'' (query defA) = Inl ''syntax error''
   \<and> RunQuery envFirstFails ''db1'' (query defB) = Inr []
   \<and> issued (trace (state_of
        (populateTableMetricsForDatabase envFirstFails [''public''] ''db1'' st0)))
       = [(''db1'', ''SELECT a'')]
   \<and> issued (trace (state_of
        (populateIndexMetricsForDatabase envFirstFails [''public''] ''db1'' st0)))
       = [(''db1'', ''SELECT a'')]
   \<and> issued (trace (state_of (PopulatePgBouncerMetrics envFirstFails ''pgbouncer'' st0)))
       = [(''pgbouncer'', ''SELECT a'')]
   \<and> issued (trace (state_of
        (processDatabaseDefinitions envFirstFails [defA, defB] ''db1'' st0)))
       = [(''db1'', ''SELECT a''), (''db1'', ''SELECT b'')]"
  by (simp add: populateTableMetricsForDatabase_def populateIndexMetricsForDatabase_def
      PopulatePgBouncerMetrics_def envFirstFails_def envBase_def defA_def defB_def
      st0_def emit_def log_def Let_def)

section \<open>Missing identity fields\<close>




section \<open>Version resolution\<close>

text \<open>
  \<open>strings.Index\<close> finds an occurrence exactly when there is one, and then within the
  string; so the slice of \<open>parseSpecialVersion\<close> is in bounds whenever the parenthetical
  it looks for is present, and the version is the tolerant parse of the text before it.
\<close>

lemma IndexFrom_occurs: "0 \<le> IndexFrom n s sub \<longleftrightarrow> (\<exists>a b. s = a @ sub @ b)"
proof (induction s arbitrary: n)
  case Nil
  show ?case by simp
next
  case (Cons c cs)
  show ?case
  proof (cases "prefix sub (c # cs)")
    case True
    then obtain b where "c # cs = sub @ b" by (auto simp: prefix_def)
    then have "c # cs = [] @ sub @ b" by simp
    then have "\<exists>a b. c # cs = a @ sub @ b" by blast
    with True show ?thesis by simp
  next
    case False
    have "(\<exists>a b. c # cs = a @ sub @ b) \<longleftrightarrow> (\<exists>a b. cs = a @ sub @ b)"
    proof
      assume "\<exists>a b. c # cs = a @ sub @ b"
      then obtain a b where ab: "c # cs = a @ sub @ b" by blast
      with False have "a \<noteq> []" by (auto simp: prefix_def)
      then obtain a' where "a = c # a'" using ab by (cases a) auto
      with ab have "cs = a' @ sub @ b" by simp
      then show "\<exists>a b. cs = a @ sub @ b" by blast
    next
      assume "\<exists>a b. cs = a @ sub @ b"
      then obtain a b where "cs = a @ sub @ b" by blast
      then have "c # cs = (c # a) @ sub @ b" by simp
      then show "\<exists>a b. c # cs = a @ sub @ b" by blast
    qed
    with False Cons.IH [of "Suc n"] show ?thesis by simp
  qed
qed

lemma IndexFrom_range:
  "0 \<le> IndexFrom n s sub \<Longrightarrow> int n \<le> IndexFrom n s sub \<and> IndexFrom n s sub \<le> int n + int (length s)"
proof (induction s arbitrary: n)
  case Nil
  then show ?case by (simp split: if_splits)
next
  case (Cons c cs)
  show ?case
  proof (cases "prefix sub (c # cs)")
    case True
    then show ?thesis by simp
  next
    case False
    with Cons.prems Cons.IH [of "Suc n"] show ?thesis by simp
  qed
qed

lemma Contains_suffix: "Contains s (pre @ tok) \<Longrightarrow> Contains s tok"
proof -
  assume "Contains s (pre @ tok)"
  then obtain a b where "s = a @ (pre @ tok) @ b"
    unfolding Contains_def Index_def IndexFrom_occurs by blast
  then have "s = (a @ pre) @ tok @ b" by simp
  then show ?thesis
    unfolding Contains_def Index_def IndexFrom_occurs by blast
qed

lemma parseSpecialVersion_in_range:
  "Contains version marker \<Longrightarrow>
   parseSpecialVersion env version (Index version marker) =
     tolerant env (take (nat (Index version marker)) version)"
  using IndexFrom_range [of 0 version marker]
  by (simp add: parseSpecialVersion_def Contains_def Index_def)

lemma collectVersion_truncates:
  assumes "RunQuery env con versionQuery = Inr (r # rs)"
  shows "(Contains (server_version r) '' (Ubuntu'' \<longrightarrow>
            fst (collectVersion env con st) =
              tolerant env (take (nat (Index (server_version r) '' (Ubuntu'')) (server_version r)))
       \<and> (\<not> Contains (server_version r) ''Ubuntu'' \<and> Contains (server_version r) '' (Debian'' \<longrightarrow>
            fst (collectVersion env con st) =
              tolerant env (take (nat (Index (server_version r) '' (Debian'')) (server_version r)))"
proof (intro conjI impI)
  assume u: "Contains (server_version r) '' (Ubuntu''"
  then have "Contains (server_version r) ''Ubuntu''"
    using Contains_suffix [of "server_version r" "'' (''" "''Ubuntu''"] by simp
  with assms u show "fst (collectVersion env con st) =
      tolerant env (take (nat (Index (server_version r) '' (Ubuntu'')) (server_version r))"
    by (simp add: collectVersion_def Let_def parseSpecialVersion_in_range)
next
  assume d: "\<not> Contains (server_version r) ''Ubuntu'' \<and> Contains (server_version r) '' (Debian''"
  then have "Contains (server_version r) ''Debian''"
    using Contains_suffix [of "server_version r" "'' (''" "''Debian''"] by simp
  with assms d show "fst (collectVersion env con st) =
      tolerant env (take (nat (Index (server_version r) '' (Debian'')) (server_version r))"
    by (simp add: collectVersion_def Let_def parseSpecialVersion_in_range)
qed

text \<open>
  C6, on the code: the test is for the token (\<open>Ubuntu\<close>), the cut is at the parenthetical
  (\<open> (Ubuntu\<close>). For the version string \<open>10.4 (Debian 10.4-2) Ubuntu\<close> the token is
  present, \<open>strings.Index\<close> is -1, and the slice of line 81 panics, although the prefix
  before the Debian parenthetical parses.
\<close>

theorem version_marker_without_parenthetical_panics:
  "Contains ''10.4 (Debian 10.4-2) Ubuntu'' ''Ubuntu''
   \<and> Contains ''10.4 (Debian 10.4-2) Ubuntu'' ''Debian''
   \<and> Index ''10.4 (Debian 10.4-2) Ubuntu'' '' (Ubuntu'' = - 1
   \<and> Index ''10.4 (Debian 10.4-2) Ubuntu'' '' (Debian'' = 4
   \<and> fst (collectVersion envMarker ''postgres'' st0) = VersionPanic"
  by (simp add: Contains_def Index_def collectVersion_def parseSpecialVersion_def envMarker_def
      envBase_def versionRow_def Let_def)

text \<open>
  C7, on the code: when the version query succeeds with no row, \<open>versionRows[0]\<close> on line 65
  is out of range: \<open>collectVersion\<close> returns neither a version nor an error, and the run
  panics after the version query, having closed the primary connection.
\<close>

theorem version_query_without_rows_panics:
  "RunQuery envNoRows ''postgres'' versionQuery = Inr []
   \<and> fst (collectVersion envNoRows ''postgres'' st0) = VersionPanic
   \<and> PopulateMetrics envNoRows [] instance0 False False st0 =
       Panic \<lparr>trace = [Connect ''postgres'', Exec ''postgres'' versionQuery, Close ''postgres''],
              samples = []\<rparr>"
  by (simp add: collectVersion_def PopulateMetrics_def envNoRows_def envBase_def st0_def emit_def
      Let_def)

section \<open>Fatal errors\<close>

text \<open>
  C8: when the primary connection cannot be opened, the run ends after the connection
  attempt and the log entry; when \<open>collectVersion\<close> returns an error, it ends after the
  version query, the log entry and the release of the primary connection. In both cases no
  further connection is opened, no further query is issued and the samples are unchanged:
  no metric domain runs.
\<close>

theorem fatal_errors_abort_before_domains:
  "(NewConnection env (DatabaseName env) = Inl e \<longrightarrow>
      PopulateMetrics env databaseList instance collectPgBouncer collectDbLocks st =
        Done (st\<lparr>trace := trace st @
          [Connect (DatabaseName env),
           Log Error ''Metrics collection failed: error creating connection to SQL Server: %s'' [e]]\<rparr>))
   \<and> (NewConnection env (DatabaseName env) = Inr con \<and>
        fst (collectVersion env con (emit (Connect (DatabaseName env)) st)) = VersionErr e \<longrightarrow>
      PopulateMetrics env databaseList instance collectPgBouncer collectDbLocks st =
        Done (st\<lparr>trace := trace st @
          [Connect (DatabaseName env),
           Exec con versionQuery,
           Log Error ''Metrics collection failed: error collecting version number: %s'' [e],
           Close con]\<rparr>))"
proof (intro conjI impI)
  assume "NewConnection env (DatabaseName env) = Inl e"
  then show "PopulateMetrics env databaseList instance collectPgBouncer collectDbLocks st =
        Done (st\<lparr>trace := trace st @
          [Connect (DatabaseName env),
           Log Error ''Metrics collection failed: error creating connection to SQL Server: %s'' [e]]\<rparr>)"
    by (simp add: PopulateMetrics_def log_def emit_def)
next
  let ?st1 = "emit (Connect (DatabaseName env)) st"
  assume a: "NewConnection env (DatabaseName env) = Inr con \<and>
        fst (collectVersion env con ?st1) = VersionErr e"
  have "snd (collectVersion env con ?st1) = emit (Exec con versionQuery) ?st1"
    by (simp add: collectVersion_def Let_def split: sum.splits list.splits)
  with a have "collectVersion env con ?st1 = (VersionErr e, emit (Exec con versionQuery) ?st1)"
    by (metis prod.collapse)
  with a show "PopulateMetrics env databaseList instance collectPgBouncer collectDbLocks st =
        Done (st\<lparr>trace := trace st @
          [Connect (DatabaseName env),
           Exec con versionQuery,
           Log Error ''Metrics collection failed: error collecting version number: %s'' [e],
           Close con]\<rparr>)"
    by (simp add: PopulateMetrics_def log_def emit_def)
qed

text \<open>Both fatal errors at concrete inputs, with every optional domain switched on: the
  primary database \<open>down\<close> refuses the connection; the version string \<open>devel\<close> does not
  parse.\<close>

theorem fatal_errors_abort_before_domains_witness:
  "NewConnection (envBase\<lparr>DatabaseName := ''down''\<rparr>) (DatabaseName (envBase\<lparr>DatabaseName := ''down''\<rparr>))
     = Inl ''connection refused''
   \<and> PopulateMetrics (envBase\<lparr>DatabaseName := ''down''\<rparr>) [(''db1'', [''public''])] instance0 True True st0 =
       Done \<lparr>trace = [Connect ''down'',
                Log Error ''Metrics collection failed: error creating connection to SQL Server: %s''
                  [''connection refused'']],
             samples = []\<rparr>
   \<and> NewConnection envBadVersion (DatabaseName envBadVersion) = Inr ''postgres''
   \<and> fst (collectVersion envBadVersion ''postgres'' (emit (Connect (DatabaseName envBadVersion)) st0))
       = VersionErr ''Invalid character(s) found''
   \<and> PopulateMetrics envBadVersion [(''db1'', [''public''])] instance0 True True st0 =
       Done \<lparr>trace = [Connect ''postgres'', Exec ''postgres'' versionQuery,
                Log Error ''Metrics collection failed: error collecting version number: %s''
                  [''Invalid character(s) found''],
                Close ''postgres''],
             samples = []\<rparr>"
proof -
  let ?down = "envBase\<lparr>DatabaseName := ''down''\<rparr>"
  have h1: "NewConnection ?down (DatabaseName ?down) = Inl ''connection refused''"
    by (simp add: envBase_def)
  have h2: "NewConnection envBadVersion (DatabaseName envBadVersion) = Inr ''postgres''"
    by (simp add: envBadVersion_def envBase_def)
  have h3: "fst (collectVersion envBadVersion ''postgres''
              (emit (Connect (DatabaseName envBadVersion)) st0)) = VersionErr ''Invalid character(s) found''"
    by (simp add: collectVersion_def envBadVersion_def envBase_def versionRow_def Contains_def
        Index_def tolerant_def parseKnown_def Let_def)
  have r1: "PopulateMetrics ?down [(''db1'', [''public''])] instance0 True True st0 =
       Done \<lparr>trace = [Connect ''down'',
                Log Error ''Metrics collection failed: error creating connection to SQL Server: %s''
                  [''connection refused'']],
             samples = []\<rparr>"
    using fatal_errors_abort_before_domains
      [of ?down "''connection refused''" "[(''db1'', [''public''])]" instance0 True True st0]
      h1
    by (simp add: st0_def envBase_def)
  have r2: "PopulateMetrics envBadVersion [(''db1'', [''public''])] instance0 True True st0 =
       Done \<lparr>trace = [Connect ''postgres'', Exec ''postgres'' versionQuery,
                Log Error ''Metrics collection failed: error collecting version number: %s''
                  [''Invalid character(s) found''],
                Close ''postgres''],
             samples = []\<rparr>"
    using fatal_errors_abort_before_domains
      [of envBadVersion "''Invalid character(s) found''" "[(''db1'', [''public''])]" instance0 True True st0
          "''postgres''"]
      h2 h3
    by (simp add: st0_def envBadVersion_def envBase_def)
  from h1 h2 h3 r1 r2 show ?thesis by (intro conjI)
qed

section \<open>Connections per database\<close>

text \<open>
  C9, on the code: \<open>PopulateTableMetrics\<close> defers \<open>con.Close()\<close> on line 190, before the
  error check of line 191. When the connection to a database cannot be opened, \<open>con\<close> is
  nil and \<open>Close\<close> panics, at the defer statement or when the deferred call runs: the run
  does not complete and the index domain is never reached (the only connection requests
  are the primary one and the failed one). \<open>PopulateIndexMetrics\<close>, which defers after the
  check, logs the same failure and returns.
\<close>

theorem table_connection_failure_panics:
  "NewConnection envBase ''down'' = Inl ''connection refused''
   \<and> PopulateTableMetrics [(''down'', [''public''])] envBase st0 =
       Panic \<lparr>trace = [Connect ''down'',
                 Log Error ''Failed to connect to database %s: %s'' [''down'', ''connection refused'']],
              samples = []\<rparr>
   \<and> PopulateTableMetrics [(''down'', [''public''])] (envBase\<lparr>CloseReceiver := ByValue\<rparr>) st0 =
       Panic \<lparr>trace = [Connect ''down''], samples = []\<rparr>
   \<and> PopulateIndexMetrics [(''down'', [''public''])] envBase st0 =
       Done \<lparr>trace = [Connect ''down'',
                 Log Error ''Failed to create new connection to database %s: %s''
                   [''down'', ''connection refused'']],
             samples = []\<rparr>
   \<and> panicked (PopulateMetrics envBase [(''down'', [''public''])] instance0 False False st0)
   \<and> opened (trace (state_of
        (PopulateMetrics envBase [(''down'', [''public''])] instance0 False False st0)))
       = [''postgres'', ''down'']"
  by (simp add: PopulateTableMetrics_def PopulateIndexMetrics_def PopulateMetrics_def
      collectDomains_def andThen_def PopulateInstanceMetrics_def NewMetricSet_def
      PopulateDatabaseMetrics_def collectVersion_def Contains_def Index_def tolerant_def
      parseKnown_def versionRow_def versionQuery_def
      envBase_def st0_def instance0_def emit_def log_def Let_def)

section \<open>Samples of the instance domain\<close>

text \<open>
  C10, as stated: an instance processed with k eligible definitions that all return rows
  carries k samples. It fails on the code: the metric set is created once, before the loop.
  With two definitions, each answered with two rows, both queries run and the instance
  carries one sample, holding the fields of the first row of each result.
\<close>

theorem instance_two_definitions_counterexample:
  "generateInstanceDefinitions envInstance \<lparr>Major = 12, Minor = 3, Patch = 0\<rparr> = [defA, defB]
   \<and> issued (trace (PopulateInstanceMetrics envInstance instance0
        \<lparr>Major = 12, Minor = 3, Patch = 0\<rparr> ''postgres'' st0))
       = [(''postgres'', ''SELECT a''), (''postgres'', ''SELECT b'')]
   \<and> length (samples (PopulateInstanceMetrics envInstance instance0
        \<lparr>Major = 12, Minor = 3, Patch = 0\<rparr> ''postgres'' st0)) = 1
   \<and> map sampleFields (samples (PopulateInstanceMetrics envInstance instance0
        \<lparr>Major = 12, Minor = 3, Patch = 0\<rparr> ''postgres'' st0))
       = [[(''size'', 7), (''size'', 7)]]"
  by (simp add: envInstance_def envBase_def PopulateInstanceMetrics_def NewMetricSet_def
      MarshalMetrics_def defA_def defB_def rowAnon_def st0_def instance0_def emit_def log_def
      Let_def)

text \<open>
  C10, amended: each instance definition consumes only the first row of its result, and
  all of them feed the one \<open>PostgresqlInstanceSample\<close> created before the loop: whatever
  the number of definitions, \<open>PopulateInstanceMetrics\<close> adds exactly one sample to the
  instance, whose fields are those of the first rows, in the order of the definitions.
\<close>

theorem instance_single_sample:
  "samples (PopulateInstanceMetrics env instanceEntity version con st) =
     samples st @
       [\<lparr>entity = instanceEntity, eventType = ''PostgresqlInstanceSample'',
         attributes = [(''displayName'', Name instanceEntity),
                       (''entityName'', Namespace instanceEntity @ '':'' @ Name instanceEntity)],
         sampleFields = instanceFields env con (generateInstanceDefinitions env version)\<rparr>]"
proof -
  let ?s = "\<lparr>entity = instanceEntity, eventType = ''PostgresqlInstanceSample'',
         attributes = [(''displayName'', Name instanceEntity),
                       (''entityName'', Namespace instanceEntity @ '':'' @ Name instanceEntity)],
         sampleFields = []\<rparr>"
  let ?st1 = "st\<lparr>samples := samples st @ [?s]\<rparr>"
  have "samples ?st1 = samples st @ [?s]" by simp
  from samples_instanceLoop [OF this, of env con "generateInstanceDefinitions env version"]
  show ?thesis
    by (simp add: PopulateInstanceMetrics_def NewMetricSet_def)
qed

end
